theory Spec2Isabelle
  imports Complex_Main
begin

section \<open>Python values and errors\<close>

text \<open>
  The values stored in \<open>shared_data\<close> are arbitrary Python objects (lists of ticket
  dicts, commit dicts, plain strings). Exceptions of the source are values of \<open>error\<close>;
  the string of an \<open>IndexError\<close> or \<open>KeyError\<close> names the expression that raised.
\<close>

datatype pyvalue =
    VNone
  | VStr string
  | VInt int
  | VList "pyvalue list"
  | VDict "(string \<times> pyvalue) list"

datatype error =
    IndexError string
  | KeyError string
  | TypeError
  | AttributeError
  | ValidationError
  | OracleError
  | GraphRecursionError

text \<open>Python truthiness (\<open>if content:\<close>) and \<open>isinstance(content, list)\<close>.\<close>

fun truthy :: "pyvalue \<Rightarrow> bool" where
  "truthy VNone = False"
| "truthy (VStr s) = (s \<noteq> [])"
| "truthy (VInt i) = (i \<noteq> 0)"
| "truthy (VList xs) = (xs \<noteq> [])"
| "truthy (VDict kvs) = (kvs \<noteq> [])"

fun is_list :: "pyvalue \<Rightarrow> bool" where
  "is_list (VList xs) = True"
| "is_list v = False"

text \<open>\<open>len(content)\<close>: raises TypeError on None and on an int.\<close>

fun py_len :: "pyvalue \<Rightarrow> error + nat" where
  "py_len VNone = Inl TypeError"
| "py_len (VInt i) = Inl TypeError"
| "py_len (VStr s) = Inr (length s)"
| "py_len (VList xs) = Inr (length xs)"
| "py_len (VDict kvs) = Inr (length kvs)"

section \<open>Run state of the plan-execute-replan engine (agent.py)\<close>

text \<open>
  \<open>PlanExecute\<close> is the TypedDict of agent.py. \<open>past_steps\<close> is annotated with the reducer
  \<open>operator.add\<close> and \<open>shared_data\<close> with \<open>operator.or_\<close>; the other keys are overwritten
  by an update. \<open>should_end\<close> tests whether the key \<open>response\<close> is present, so that field
  is optional here: \<open>None\<close> is an absent key, \<open>Some PyNone\<close> is Python's None.
\<close>

datatype optstr = PyNone | PyStr string

fun truthy_response :: "optstr \<Rightarrow> bool" where
  "truthy_response PyNone = False"
| "truthy_response (PyStr r) = (r \<noteq> [])"

record PlanExecute =
  input :: string
  plan :: "string list"
  past_steps :: "(string \<times> string) list"
  response :: "optstr option"
  shared_data :: "string \<rightharpoonup> pyvalue"

text \<open>\<open>operator.add\<close> on lists and \<open>operator.or_\<close> on dicts (the right operand wins on a
  common key).\<close>

definition operator_add :: "'a list \<Rightarrow> 'a list \<Rightarrow> 'a list" where
  "operator_add a b = a @ b"

definition operator_or :: "('k \<rightharpoonup> 'v) \<Rightarrow> ('k \<rightharpoonup> 'v) \<Rightarrow> ('k \<rightharpoonup> 'v)" where
  "operator_or a b = (\<lambda>k. case b k of Some v \<Rightarrow> Some v | None \<Rightarrow> a k)"

text \<open>The dict a node returns: a key that is absent leaves the state's key alone.\<close>

record update =
  u_plan :: "string list option"
  u_past_steps :: "(string \<times> string) list option"
  u_response :: "optstr option"
  u_shared_data :: "(string \<rightharpoonup> pyvalue) option"

definition no_update :: update where
  "no_update = \<lparr>u_plan = None, u_past_steps = None, u_response = None, u_shared_data = None\<rparr>"

definition apply_update :: "PlanExecute \<Rightarrow> update \<Rightarrow> PlanExecute" where
  "apply_update state u =
     \<lparr>input = input state,
      plan = (case u_plan u of None \<Rightarrow> plan state | Some p \<Rightarrow> p),
      past_steps = (case u_past_steps u of None \<Rightarrow> past_steps state
                    | Some new \<Rightarrow> operator_add (past_steps state) new),
      response = (case u_response u of None \<Rightarrow> response state | Some r \<Rightarrow> Some r),
      shared_data = (case u_shared_data u of None \<Rightarrow> shared_data state
                     | Some patch \<Rightarrow> operator_or (shared_data state) patch)\<rparr>"

section \<open>The oracle and the sub-agent\<close>

text \<open>
  The structured outputs of the language model. \<open>Act.action\<close> is the union of
  \<open>Response\<close> and \<open>Plan\<close>. The sub-agent is invoked with
  \<open>stream_mode=["values", "custom"]\<close> and returns a list of (mode, payload) pairs: a
  values payload is the sub-agent's state (the contents of its messages and, when the key
  is there, its \<open>shared_data\<close>), a custom payload is a progress notice.
  Every call takes the index of the superstep, so that an oracle may answer differently
  each time; \<open>None\<close> is a call that raises.
\<close>

datatype act = Response string | Plan "string list"

datatype payload =
    StateValues "string list" "(string \<rightharpoonup> pyvalue) option"
  | CustomData string

type_synonym chunk = "string \<times> payload"

record llm_oracle =
  planner_invoke :: "nat \<Rightarrow> string \<Rightarrow> string list option"
  replanner_invoke :: "nat \<Rightarrow> PlanExecute \<Rightarrow> act option"
  agent_executor_invoke :: "nat \<Rightarrow> string \<Rightarrow> (string \<rightharpoonup> pyvalue) \<Rightarrow> chunk list option"

section \<open>Formatting the task (execute\_step, lines 145 to 148)\<close>

definition digit_char :: "nat \<Rightarrow> char" where
  "digit_char n = ''0123456789'' ! n"

fun string_of_nat :: "nat \<Rightarrow> string" where
  "string_of_nat n =
     (if n < 10 then [digit_char n]
      else string_of_nat (n div 10) @ [digit_char (n mod 10)])"

declare string_of_nat.simps [simp del]

definition newline :: string where
  "newline = [CHR 0x0A]"

fun join :: "string \<Rightarrow> string list \<Rightarrow> string" where
  "join sep [] = []"
| "join sep [x] = x"
| "join sep (x # y # ys) = x @ sep @ join sep (y # ys)"

text \<open>\<open>"\n".join(f"{i + 1}. {step}" for i, step in enumerate(plan))\<close>\<close>

definition plan_str :: "string list \<Rightarrow> string" where
  "plan_str pl =
     join newline (map (\<lambda>(i, step). string_of_nat (i + 1) @ ''. '' @ step) (enumerate 0 pl))"

definition task_formatted :: "string \<Rightarrow> string \<Rightarrow> string" where
  "task_formatted ps task =
     ''For the following plan:'' @ ps @ newline @ newline
     @ ''You are tasked with executing step 1. Execute the task as completely and thoroughly as possible. The perference is to be exhaustive in completion of the task and the data we provide., ''
     @ task @ ''.''"

text \<open>\<open>plan[0]\<close> raises IndexError on an empty plan; \<open>enumerate\<close> never raises.\<close>

definition format_task :: "string list \<Rightarrow> error + (string \<times> string)" where
  "format_task pl =
     (let ps = plan_str pl in
      case pl of
        [] \<Rightarrow> Inl (IndexError ''plan[0]'')
      | task # rest \<Rightarrow> Inr (task, task_formatted ps task))"

section \<open>The three nodes and the routing function\<close>

text \<open>\<open>agent_response[-1][1]["messages"][-1].content\<close>\<close>

definition last_content :: "chunk list \<Rightarrow> error + string" where
  "last_content agent_response =
     (if agent_response = [] then Inl (IndexError ''agent_response[-1]'')
      else case snd (last agent_response) of
             CustomData c \<Rightarrow> Inl (KeyError ''messages'')
           | StateValues msgs sd \<Rightarrow>
               if msgs = [] then Inl (IndexError ''messages[-1]'') else Inr (last msgs))"

text \<open>\<open>agent_response[-1][1]["shared_data"]\<close>\<close>

definition last_shared_data :: "chunk list \<Rightarrow> error + (string \<rightharpoonup> pyvalue)" where
  "last_shared_data agent_response =
     (if agent_response = [] then Inl (IndexError ''agent_response[-1]'')
      else case snd (last agent_response) of
             CustomData c \<Rightarrow> Inl (KeyError ''shared_data'')
           | StateValues msgs sd \<Rightarrow>
               (case sd of None \<Rightarrow> Inl (KeyError ''shared_data'') | Some d \<Rightarrow> Inr d))"

text \<open>The payloads forwarded to the stream writer, in order.\<close>

definition customs :: "chunk list \<Rightarrow> payload list" where
  "customs agent_response = map snd (filter (\<lambda>x. fst x = ''custom'') agent_response)"

text \<open>\<open>execute_step\<close> returns the events it wrote and the update
  \<open>{"past_steps": [(task, content)], "shared_data": ...}\<close>.\<close>

definition execute_step :: "llm_oracle \<Rightarrow> nat \<Rightarrow> PlanExecute \<Rightarrow> error + (payload list \<times> update)" where
  "execute_step orc i state =
     (case format_task (plan state) of
        Inl e \<Rightarrow> Inl e
      | Inr (task, formatted) \<Rightarrow>
          (case agent_executor_invoke orc i formatted (shared_data state) of
             None \<Rightarrow> Inl OracleError
           | Some agent_response \<Rightarrow>
               (case last_content agent_response of
                  Inl e \<Rightarrow> Inl e
                | Inr content \<Rightarrow>
                    (case last_shared_data agent_response of
                       Inl e \<Rightarrow> Inl e
                     | Inr sd \<Rightarrow>
                         Inr (customs agent_response,
                              \<lparr>u_plan = None, u_past_steps = Some [(task, content)],
                               u_response = None, u_shared_data = Some sd\<rparr>)))))"

text \<open>\<open>plan_step\<close>: \<open>{"plan": plan.steps, "response": None}\<close>\<close>

definition plan_step :: "llm_oracle \<Rightarrow> nat \<Rightarrow> PlanExecute \<Rightarrow> error + update" where
  "plan_step orc i state =
     (case planner_invoke orc i (input state) of
        None \<Rightarrow> Inl OracleError
      | Some steps \<Rightarrow>
          Inr \<lparr>u_plan = Some steps, u_past_steps = None,
               u_response = Some PyNone, u_shared_data = None\<rparr>)"

text \<open>\<open>replan_step\<close>: \<open>{"response": ...}\<close> for a Response, \<open>{"plan": ...}\<close> for a Plan.\<close>

definition replan_step :: "llm_oracle \<Rightarrow> nat \<Rightarrow> PlanExecute \<Rightarrow> error + update" where
  "replan_step orc i state =
     (case replanner_invoke orc i state of
        None \<Rightarrow> Inl OracleError
      | Some (Response r) \<Rightarrow>
          Inr \<lparr>u_plan = None, u_past_steps = None,
               u_response = Some (PyStr r), u_shared_data = None\<rparr>
      | Some (Plan steps) \<Rightarrow>
          Inr \<lparr>u_plan = Some steps, u_past_steps = None,
               u_response = None, u_shared_data = None\<rparr>)"

text \<open>
  The nodes added by \<open>build_graph\<close> (\<open>"planner"\<close>, \<open>"agent"\<close>, \<open>"replan"\<close>) and the
  targets of its edges: a node, or END.
\<close>

datatype node = Planner | Agent | Replan

datatype target = Goto node | END

text \<open>\<open>should_end\<close>: \<open>"response" in state and state["response"]\<close>\<close>

definition should_end :: "PlanExecute \<Rightarrow> target" where
  "should_end state =
     (case response state of
        None \<Rightarrow> Goto Agent
      | Some r \<Rightarrow> if truthy_response r then END else Goto Agent)"

section \<open>The graph of build\_graph\<close>

text \<open>
  The edges: START to planner, planner to agent, agent to replan, and from replan the
  conditional edge \<open>should_end\<close>, evaluated on the state after the node's update.
\<close>

definition entry_point :: target where
  "entry_point = Goto Planner"

fun node_op :: "llm_oracle \<Rightarrow> nat \<Rightarrow> node \<Rightarrow> PlanExecute \<Rightarrow> error + update" where
  "node_op orc i Planner state = plan_step orc i state"
| "node_op orc i Agent state =
     (case execute_step orc i state of Inl e \<Rightarrow> Inl e | Inr (events, u) \<Rightarrow> Inr u)"
| "node_op orc i Replan state = replan_step orc i state"

fun edge :: "node \<Rightarrow> PlanExecute \<Rightarrow> target" where
  "edge Planner state = Goto Agent"
| "edge Agent state = Goto Replan"
| "edge Replan state = should_end state"

definition step :: "llm_oracle \<Rightarrow> nat \<Rightarrow> node \<Rightarrow> PlanExecute \<Rightarrow> error + (target \<times> PlanExecute)" where
  "step orc i n state =
     (case node_op orc i n state of
        Inl e \<Rightarrow> Inl e
      | Inr u \<Rightarrow> (let state' = apply_update state u in Inr (edge n state', state')))"

text \<open>
  \<open>steps orc k i (tgt, state)\<close> takes at most \<open>k\<close> transitions and returns the nodes whose
  operation was invoked and completed, in order, with the configuration reached or the
  error raised. Nothing is invoked at END.
\<close>

fun steps :: "llm_oracle \<Rightarrow> nat \<Rightarrow> nat \<Rightarrow> target \<times> PlanExecute
              \<Rightarrow> node list \<times> (error + (target \<times> PlanExecute))" where
  "steps orc 0 i c = ([], Inr c)"
| "steps orc (Suc k) i (END, state) = ([], Inr (END, state))"
| "steps orc (Suc k) i (Goto n, state) =
     (case step orc i n state of
        Inl e \<Rightarrow> ([], Inl e)
      | Inr c' \<Rightarrow> (case steps orc k (Suc i) c' of (t, r) \<Rightarrow> (n # t, r)))"

text \<open>A run under a recursion limit: the state at END, or the error that ended the run.\<close>

definition run :: "llm_oracle \<Rightarrow> nat \<Rightarrow> PlanExecute \<Rightarrow> error + PlanExecute" where
  "run orc limit state =
     (case snd (steps orc limit 0 (entry_point, state)) of
        Inl e \<Rightarrow> Inl e
      | Inr (END, state') \<Rightarrow> Inr state'
      | Inr (Goto n, state') \<Rightarrow> Inl GraphRecursionError)"

text \<open>The fresh run state the router builds for the engine it delegates to
  (\<open>execute_github_agent\<close>, \<open>execute_jira_agent\<close>).\<close>

definition fresh_state :: "string \<Rightarrow> (string \<rightharpoonup> pyvalue) \<Rightarrow> PlanExecute" where
  "fresh_state query sd =
     \<lparr>input = query, plan = [], past_steps = [], response = Some (PyStr []),
      shared_data = sd\<rparr>"

text \<open>A scripted oracle, for evaluating the engine on a concrete run: the plan has two
  steps, the sub-agent answers \<open>ok\<close> and stores one key, and the replanner concludes at its
  second call (superstep 4).\<close>

definition scripted :: llm_oracle where
  "scripted =
     \<lparr>planner_invoke = (\<lambda>i q. Some [''fetch items'', ''summarize items'']),
      replanner_invoke = (\<lambda>i st. if i < 4 then Some (Plan [''summarize items''])
                                  else Some (Response ''summary'')),
      agent_executor_invoke = (\<lambda>i task sd.
         Some [(''custom'', CustomData ''retrieved 3 items''),
               (''values'', StateValues [task, ''ok''] (Some (sd(''src.call1'' \<mapsto> VList []))))])\<rparr>"

section \<open>Data-fetching tools (jira.py, github.py)\<close>

text \<open>
  Each tool fetches data through its API wrapper and returns a
  \<open>Command(update={"shared_data": {key: data}, "messages": [ToolMessage(text, tool_call_id)]})\<close>.
  The data the API returned is an argument here; a message is its text with its
  \<open>tool_call_id\<close>.
\<close>

record command =
  c_shared_data :: "string \<rightharpoonup> pyvalue"
  c_messages :: "(string \<times> string) list"

fun string_of_int :: "int \<Rightarrow> string" where
  "string_of_int n = (if n < 0 then ''-'' @ string_of_nat (nat (- n)) else string_of_nat (nat n))"

definition jql_query :: "pyvalue \<Rightarrow> string \<Rightarrow> command" where
  "jql_query parsed_issues tool_call_id =
     (let key = ''jira.jql.'' @ tool_call_id in
      \<lparr>c_shared_data = [key \<mapsto> parsed_issues],
       c_messages = [(''The memory key for this list of issues is '' @ key, tool_call_id)]\<rparr>)"

definition get_github_commits :: "pyvalue list \<Rightarrow> string \<Rightarrow> string \<Rightarrow> command" where
  "get_github_commits commits repo tool_call_id =
     (let key = ''github.commits.'' @ tool_call_id in
      \<lparr>c_shared_data = [key \<mapsto> VList commits],
       c_messages = [(''Retrieved '' @ string_of_nat (length commits) @ '' commits from '' @ repo
                        @ ''. Memory key: '' @ key, tool_call_id)]\<rparr>)"

definition get_github_pull_requests :: "pyvalue list \<Rightarrow> string \<Rightarrow> string \<Rightarrow> command" where
  "get_github_pull_requests prs repo tool_call_id =
     (let key = ''github.prs.'' @ tool_call_id in
      \<lparr>c_shared_data = [key \<mapsto> VList prs],
       c_messages = [(''Retrieved '' @ string_of_nat (length prs) @ '' pull requests from '' @ repo
                        @ ''. Memory key: '' @ key, tool_call_id)]\<rparr>)"

definition get_github_commit_details :: "pyvalue \<Rightarrow> string \<Rightarrow> string \<Rightarrow> string \<Rightarrow> command" where
  "get_github_commit_details commit repo sha tool_call_id =
     (let key = ''github.commit.'' @ tool_call_id in
      \<lparr>c_shared_data = [key \<mapsto> commit],
       c_messages = [(''Retrieved detailed commit data for '' @ sha @ '' from '' @ repo
                        @ ''. Memory key: '' @ key, tool_call_id)]\<rparr>)"

definition get_github_pr_details :: "pyvalue \<Rightarrow> string \<Rightarrow> int \<Rightarrow> string \<Rightarrow> command" where
  "get_github_pr_details pr repo pr_number tool_call_id =
     (let key = ''github.pr.'' @ tool_call_id in
      \<lparr>c_shared_data = [key \<mapsto> pr],
       c_messages = [(''Retrieved detailed PR data for #'' @ string_of_int pr_number @ '' from ''
                        @ repo @ ''. Memory key: '' @ key, tool_call_id)]\<rparr>)"

text \<open>One invocation of a data-fetching tool, with what its API call returned.\<close>

datatype tool_call =
    JqlQuery pyvalue
  | GetGithubCommits "pyvalue list" string
  | GetGithubPullRequests "pyvalue list" string
  | GetGithubCommitDetails pyvalue string string
  | GetGithubPrDetails pyvalue string int

fun invoke_tool :: "tool_call \<Rightarrow> string \<Rightarrow> command" where
  "invoke_tool (JqlQuery parsed_issues) tool_call_id = jql_query parsed_issues tool_call_id"
| "invoke_tool (GetGithubCommits commits repo) tool_call_id =
     get_github_commits commits repo tool_call_id"
| "invoke_tool (GetGithubPullRequests prs repo) tool_call_id =
     get_github_pull_requests prs repo tool_call_id"
| "invoke_tool (GetGithubCommitDetails commit repo sha) tool_call_id =
     get_github_commit_details commit repo sha tool_call_id"
| "invoke_tool (GetGithubPrDetails pr repo pr_number) tool_call_id =
     get_github_pr_details pr repo pr_number tool_call_id"

text \<open>The namespace of each tool, as its f-string writes it.\<close>

fun key_prefix :: "tool_call \<Rightarrow> string" where
  "key_prefix (JqlQuery parsed_issues) = ''jira.jql.''"
| "key_prefix (GetGithubCommits commits repo) = ''github.commits.''"
| "key_prefix (GetGithubPullRequests prs repo) = ''github.prs.''"
| "key_prefix (GetGithubCommitDetails commit repo sha) = ''github.commit.''"
| "key_prefix (GetGithubPrDetails pr repo pr_number) = ''github.pr.''"

section \<open>Map-reduce tools (analysis.py, summarise.py)\<close>

text \<open>
  What the tools call and do not define: the conversion of a ticket to a document (it
  may raise, and the tools then fall back to \<open>str\<close>), Python's \<open>str\<close>, the map-reduce chain
  of \<open>load_summarize_chain\<close> (the two prompt templates are fixed texts around the
  dimensions, so the chain takes the dimensions), the structured language-model call of
  \<open>summarise_content\<close>, the parser's format instructions and \<open>json.dumps\<close>. A chain call and
  a structured call are the two ways these tools invoke the oracle; a result carries the
  list of the invocations made.
\<close>

record document =
  page_content :: string
  metadata :: "(string \<times> pyvalue) list"

datatype chain_kind = AnalysisChain | SummaryChain

datatype oracle_call =
    ChainInvoke chain_kind string "document list"
  | StructuredInvoke string

record externals =
  ticket_to_document :: "pyvalue \<Rightarrow> document option"
  py_str :: "pyvalue \<Rightarrow> string"
  chain_invoke :: "chain_kind \<Rightarrow> string \<Rightarrow> document list \<Rightarrow> string option"
  structured_invoke :: "string \<Rightarrow> (string \<times> string) list option"
  format_instructions :: string
  json_dumps :: "(string \<times> string) list \<Rightarrow> string"

record tool_result =
  res_messages :: "string list"
  res_events :: "string list"
  oracle_calls :: "oracle_call list"

text \<open>The injected state: a dict whose key \<open>shared_data\<close> may be absent.\<close>

record tool_state =
  ts_shared_data :: "(string \<rightharpoonup> pyvalue) option"

text \<open>\<open>memory_key in state.get("shared_data", {})\<close>, then \<open>state["shared_data"][memory_key]\<close>\<close>

definition lookup_shared :: "tool_state \<Rightarrow> string \<Rightarrow> pyvalue option" where
  "lookup_shared state memory_key =
     (case ts_shared_data state of None \<Rightarrow> None | Some sd \<Rightarrow> sd memory_key)"

text \<open>The list comprehension over \<open>ticket_to_document\<close> under \<open>try\<close>, with its fallback.\<close>

definition to_documents :: "externals \<Rightarrow> pyvalue list \<Rightarrow> document list" where
  "to_documents ext content =
     (case those (map (ticket_to_document ext) content) of
        Some documents \<Rightarrow> documents
      | None \<Rightarrow> map (\<lambda>ticket. \<lparr>page_content = py_str ext ticket, metadata = []\<rparr>) content)"

definition analyze_content_tool ::
  "externals \<Rightarrow> string list \<Rightarrow> string \<Rightarrow> tool_state \<Rightarrow> error + tool_result" where
  "analyze_content_tool ext dimensions memory_key state =
     (case lookup_shared state memory_key of
        None \<Rightarrow>
          Inr \<lparr>res_messages = [''Failure to analyze content''], res_events = [], oracle_calls = []\<rparr>
      | Some content \<Rightarrow>
          (case py_len content of
             Inl e \<Rightarrow> Inl e
           | Inr n \<Rightarrow>
               (let ev1 = [''[bold green]SHARED DATA FOUND[/bold green]: Retrieved ''
                            @ string_of_nat n @ '' from shared memory'']
                in if truthy content then
                     (let dimensions_str = join '','' dimensions;
                          ev2 = [''[bold blue]MAP-REDUCE ANALYSIS[/bold blue]: Processing ''
                                 @ string_of_nat n @ '' items ''
                                 @ string_of_nat (length dimensions) @ '' dimensions''];
                          documents = (case content of
                                         VList tickets \<Rightarrow> to_documents ext tickets
                                       | _ \<Rightarrow> [\<lparr>page_content = py_str ext content, metadata = []\<rparr>]);
                          ev3 = [''[blue]Running map-reduce analysis across ''
                                 @ string_of_nat (length documents) @ '' documents[/blue]'']
                      in case chain_invoke ext AnalysisChain dimensions_str documents of
                           None \<Rightarrow> Inl OracleError
                         | Some result \<Rightarrow>
                             Inr \<lparr>res_messages = [result],
                                  res_events = ev1 @ ev2 @ ev3
                                    @ [''[bold blue]MAP-REDUCE ANALYSIS COMPLETE[/bold blue]''],
                                  oracle_calls = [ChainInvoke AnalysisChain dimensions_str documents]\<rparr>)
                   else Inr \<lparr>res_messages = [''Failure to analyze content''], res_events = ev1,
                             oracle_calls = []\<rparr>)))"

text \<open>\<open>summary_prompt\<close>, formatted.\<close>

definition summary_prompt :: "string \<Rightarrow> string \<Rightarrow> string \<Rightarrow> string" where
  "summary_prompt dimensions content fmt =
     ''You are summarizing the content provided in the variety of dimensions requested.''
     @ ''For each dimension, provide a summary that captures the essence of the content with respect to that dimension.''
     @ ''The dimensions to analyze are: '' @ newline @ newline @ dimensions @ newline @ newline
     @ ''The content to analyze is: '' @ newline @ newline @ content @ newline @ newline
     @ fmt @ newline"

text \<open>\<open>Summary.set_dimension\<close>: assignment to a dict key.\<close>

fun set_dimension :: "(string \<times> string) list \<Rightarrow> string \<Rightarrow> string \<Rightarrow> (string \<times> string) list" where
  "set_dimension [] name summary = [(name, summary)]"
| "set_dimension ((k, v) # kvs) name summary =
     (if k = name then (k, summary) # kvs else (k, v) # set_dimension kvs name summary)"

text \<open>\<open>summarise_content\<close>: one structured call of the language model.\<close>

definition summarise_content :: "externals \<Rightarrow> string \<Rightarrow> pyvalue \<Rightarrow> error + (string \<times> oracle_call list)" where
  "summarise_content ext dimensions content =
     (let prompt = summary_prompt dimensions (py_str ext content) (format_instructions ext) in
      case structured_invoke ext prompt of
        None \<Rightarrow> Inl OracleError
      | Some response_dimensions \<Rightarrow>
          Inr (json_dumps ext
                 (foldl (\<lambda>summary (name, text). set_dimension summary name text) []
                    response_dimensions),
               [StructuredInvoke prompt]))"

text \<open>\<open>HumanMessage(content=...)\<close> accepts a string or a list of strings and dicts.\<close>

fun message_content_ok :: "pyvalue \<Rightarrow> bool" where
  "message_content_ok (VStr s) = True"
| "message_content_ok (VList xs) =
     list_all (\<lambda>x. case x of VStr s \<Rightarrow> True | VDict d \<Rightarrow> True | _ \<Rightarrow> False) xs"
| "message_content_ok v = False"

text \<open>The items of a list, where \<open>isinstance(content, list)\<close> holds.\<close>

fun list_items :: "pyvalue \<Rightarrow> pyvalue list" where
  "list_items (VList xs) = xs"
| "list_items v = []"

text \<open>\<open>summarise_content_tool(dimensions, content=None, memory_key=None, state=None)\<close>\<close>

definition summarise_content_tool ::
  "externals \<Rightarrow> string \<Rightarrow> pyvalue \<Rightarrow> string option \<Rightarrow> tool_state option
     \<Rightarrow> error + tool_result" where
  "summarise_content_tool ext dimensions content memory_key state =
     (case (if memory_key = None \<or> memory_key = Some [] then Inr (content, [])
            else case state of
                   None \<Rightarrow> Inl AttributeError
                 | Some st \<Rightarrow>
                     (case lookup_shared st (the memory_key) of
                        None \<Rightarrow> Inr (content, [])
                      | Some found \<Rightarrow>
                          Inr (found, [''[bold green]CONTENT FOUND[/bold green]: Retrieved ''
                                       @ the memory_key @ '' from shared memory''])))
      of
        Inl e \<Rightarrow> Inl e
      | Inr (content', ev1) \<Rightarrow>
          (if truthy content' \<and> is_list content' \<and> 0 < length (list_items content') then
               (let ev2 = [''[bold green]MAP-REDUCE SUMMARY[/bold green]: Processing ''
                           @ string_of_nat (length (list_items content')) @ '' items''];
                    documents = to_documents ext (list_items content');
                    ev3 = [''[blue]Running map-reduce across ''
                           @ string_of_nat (length documents) @ '' documents[/blue]'']
                in case chain_invoke ext SummaryChain dimensions documents of
                     None \<Rightarrow> Inl OracleError
                   | Some result \<Rightarrow>
                       Inr \<lparr>res_messages = [result],
                            res_events = ev1 @ ev2 @ ev3
                              @ [''[bold green]MAP-REDUCE COMPLETE[/bold green]''],
                            oracle_calls = [ChainInvoke SummaryChain dimensions documents]\<rparr>)
           else
               (if \<not> message_content_ok content' then Inl ValidationError
                else case summarise_content ext dimensions content' of
                       Inl e \<Rightarrow> Inl e
                     | Inr (text, calls) \<Rightarrow>
                         Inr \<lparr>res_messages = [text],
                              res_events = ev1
                                @ [''[bold blue]TEXT SUMMARY[/bold blue]: Processing text content'',
                                   ''[bold blue]TEXT SUMMARY COMPLETE[/bold blue]''],
                              oracle_calls = calls\<rparr>)))"

text \<open>Stand-ins for the external calls, for evaluating the tools on concrete inputs: the
  chain answers \<open>combined\<close>, the structured call returns one dimension.\<close>

definition stub_externals :: externals where
  "stub_externals =
     \<lparr>ticket_to_document = (\<lambda>ticket. None),
      py_str = (\<lambda>v. case v of VStr s \<Rightarrow> s | VList [] \<Rightarrow> ''[]'' | _ \<Rightarrow> ''...''),
      chain_invoke = (\<lambda>kind dimensions documents. Some ''combined''),
      structured_invoke = (\<lambda>prompt. Some [(''priority'', ''nothing to summarise'')]),
      format_instructions = ''fmt'',
      json_dumps = (\<lambda>kvs. concat (map (\<lambda>(k, v). k @ '': '' @ v) kvs))\<rparr>"

section \<open>Router (sengy\_graph.py)\<close>

text \<open>
  \<open>RouteDecision\<close> declares \<open>agent: Literal["github", "jira"]\<close>, \<open>confidence: float\<close> with
  \<open>ge=0.0\<close> and \<open>le=1.0\<close>, and \<open>reasoning: str\<close>. The router's language model is bound
  to that schema, so what it produces is validated against these constraints; a
  confidence is modelled by its real value. \<open>None\<close> from the model is a call that raises.
\<close>

record RouteDecision =
  agent :: string
  confidence :: real
  reasoning :: string

definition validate_route_decision :: "RouteDecision \<Rightarrow> error + RouteDecision" where
  "validate_route_decision raw =
     (if (agent raw = ''github'' \<or> agent raw = ''jira'')
         \<and> 0 \<le> confidence raw \<and> confidence raw \<le> 1
      then Inr raw else Inl ValidationError)"

record SengyRouterState =
  r_input :: string
  route_decision :: "RouteDecision option"
  final_response :: string
  r_shared_data :: "string \<rightharpoonup> pyvalue"

text \<open>\<open>self.router.invoke({"query": query}, config)\<close>\<close>

definition router_invoke :: "(string \<Rightarrow> RouteDecision option) \<Rightarrow> string \<Rightarrow> error + RouteDecision" where
  "router_invoke llm query =
     (case llm query of None \<Rightarrow> Inl OracleError | Some raw \<Rightarrow> validate_route_decision raw)"

text \<open>\<open>route_query\<close>, with its update applied: \<open>shared_data\<close> is merged with itself.\<close>

definition route_query :: "(string \<Rightarrow> RouteDecision option) \<Rightarrow> SengyRouterState
                           \<Rightarrow> error + SengyRouterState" where
  "route_query llm state =
     (case router_invoke llm (r_input state) of
        Inl e \<Rightarrow> Inl e
      | Inr decision \<Rightarrow>
          Inr (state\<lparr>route_decision := Some decision,
                     r_shared_data := operator_or (r_shared_data state) (r_shared_data state)\<rparr>))"

text \<open>\<open>decide_route\<close>: \<open>state["route_decision"].agent\<close>\<close>

definition decide_route :: "SengyRouterState \<Rightarrow> error + string" where
  "decide_route state =
     (case route_decision state of None \<Rightarrow> Inl AttributeError | Some d \<Rightarrow> Inr (agent d))"

datatype router_node = execute_github | execute_jira

text \<open>The path map of the conditional edge:
  \<open>{"github": "execute_github", "jira": "execute_jira"}\<close>.\<close>

definition path_map :: "string \<rightharpoonup> router_node" where
  "path_map = [''github'' \<mapsto> execute_github, ''jira'' \<mapsto> execute_jira]"

text \<open>The router's first transition: the node \<open>route_query\<close>, then its conditional edge.\<close>

definition route :: "(string \<Rightarrow> RouteDecision option) \<Rightarrow> SengyRouterState
                     \<Rightarrow> error + (router_node \<times> SengyRouterState)" where
  "route llm state =
     (case route_query llm state of
        Inl e \<Rightarrow> Inl e
      | Inr state' \<Rightarrow>
          (case decide_route state' of
             Inl e \<Rightarrow> Inl e
           | Inr name \<Rightarrow>
               (case path_map name of
                  None \<Rightarrow> Inl (KeyError name)
                | Some n \<Rightarrow> Inr (n, state'))))"

text \<open>The state \<open>SengyGraph.invoke\<close> starts from.\<close>

definition initial_state :: "string \<Rightarrow> SengyRouterState" where
  "initial_state query =
     \<lparr>r_input = query, route_decision = None, final_response = [], r_shared_data = Map.empty\<rparr>"

section \<open>Shared-data merge\<close>

lemma operator_or_map_add: "operator_or a b = a ++ b"
  by (rule ext) (simp add: operator_or_def map_add_def)

text \<open>
  C2. For every state mapping \<open>S\<close> and two patches \<open>P1\<close>, \<open>P2\<close> with disjoint key sets, merging
  \<open>P1\<close> then \<open>P2\<close> gives the same mapping as merging \<open>P2\<close> then \<open>P1\<close>, for the reducer
  \<open>operator.or_\<close> and for the state update that applies it.
\<close>

theorem shared_data_merge_commutes:
  assumes "dom P1 \<inter> dom P2 = {}"
  shows "operator_or (operator_or S P1) P2 = operator_or (operator_or S P2) P1
       \<and> shared_data (apply_update (apply_update st (no_update\<lparr>u_shared_data := Some P1\<rparr>))
                                   (no_update\<lparr>u_shared_data := Some P2\<rparr>))
         = shared_data (apply_update (apply_update st (no_update\<lparr>u_shared_data := Some P2\<rparr>))
                                     (no_update\<lparr>u_shared_data := Some P1\<rparr>))"
proof -
  have swap: "P1 ++ P2 = P2 ++ P1"
    using assms by (rule map_add_comm)
  have c: "operator_or (operator_or S P1) P2 = operator_or (operator_or S P2) P1" for S
  proof -
    have "(S ++ P1) ++ P2 = S ++ (P1 ++ P2)" by simp
    also have "\<dots> = S ++ (P2 ++ P1)" by (simp only: swap)
    also have "\<dots> = (S ++ P2) ++ P1" by simp
    finally show ?thesis by (simp only: operator_or_map_add)
  qed
  show ?thesis
    using c [of S] c [of "shared_data st"] by (simp add: apply_update_def no_update_def)
qed

theorem shared_data_merge_commutes_witness:
  "dom [''jira.jql.call_1'' \<mapsto> VList []] \<inter> dom [''github.commits.call_2'' \<mapsto> VInt 7] = {}
   \<and> operator_or (operator_or [''k'' \<mapsto> VNone] [''jira.jql.call_1'' \<mapsto> VList []])
                  [''github.commits.call_2'' \<mapsto> VInt 7]
     = operator_or (operator_or [''k'' \<mapsto> VNone] [''github.commits.call_2'' \<mapsto> VInt 7])
                   [''jira.jql.call_1'' \<mapsto> VList []]"
proof -
  have h: "dom [''jira.jql.call_1'' \<mapsto> VList []] \<inter> dom [''github.commits.call_2'' \<mapsto> VInt 7] = {}"
    by simp
  show ?thesis
    using h shared_data_merge_commutes [OF h, of "[''k'' \<mapsto> VNone]" "fresh_state ''q'' Map.empty"]
    by simp
qed

section \<open>Properties of the engine\<close>

lemma format_task_Inr:
  "format_task pl = Inr (task, formatted) \<Longrightarrow>
     (\<exists>rest. pl = task # rest) \<and> formatted = task_formatted (plan_str pl) task"
  by (cases pl) (auto simp: format_task_def)

lemma execute_step_Inr:
  assumes "execute_step orc i state = Inr (events, u)"
  shows "\<exists>task rest content sd.
           plan state = task # rest
         \<and> u = \<lparr>u_plan = None, u_past_steps = Some [(task, content)],
                u_response = None, u_shared_data = Some sd\<rparr>"
  using assms
  by (auto simp: execute_step_def split: sum.splits option.splits dest!: format_task_Inr)

lemma plan_step_Inr:
  "plan_step orc i state = Inr u \<Longrightarrow>
     \<exists>stps. u = \<lparr>u_plan = Some stps, u_past_steps = None,
                  u_response = Some PyNone, u_shared_data = None\<rparr>"
  by (auto simp: plan_step_def split: option.splits)

lemma replan_step_Inr:
  "replan_step orc i state = Inr u \<Longrightarrow> u_past_steps u = None \<and> u_shared_data u = None"
  by (auto simp: replan_step_def split: option.splits act.splits)

lemma step_past_steps:
  assumes "step orc i n state = Inr (tgt, state')"
  shows "\<exists>new. past_steps state' = past_steps state @ new
             \<and> length new = (if n = Agent then 1 else 0)"
proof (cases n)
  case Planner
  with assms show ?thesis
    by (auto simp: step_def Let_def apply_update_def split: sum.splits dest!: plan_step_Inr)
next
  case Agent
  with assms show ?thesis
    by (auto simp: step_def Let_def apply_update_def operator_add_def
             split: sum.splits prod.splits dest!: execute_step_Inr)
next
  case Replan
  with assms show ?thesis
    by (auto simp: step_def Let_def apply_update_def split: sum.splits dest!: replan_step_Inr)
qed

lemma steps_past_steps:
  "steps orc k i (tgt, state) = (t, Inr (tgt', state')) \<Longrightarrow>
     \<exists>new. past_steps state' = past_steps state @ new \<and> length new = count_list t Agent"
proof (induction k arbitrary: i tgt state t)
  case 0
  then show ?case by simp
next
  case (Suc k)
  show ?case
  proof (cases tgt)
    case END
    with Suc.prems show ?thesis by simp
  next
    case (Goto n)
    with Suc.prems obtain tgt1 state1 t1 where
      st: "step orc i n state = Inr (tgt1, state1)"
      and rest: "steps orc k (Suc i) (tgt1, state1) = (t1, Inr (tgt', state'))"
      and t: "t = n # t1"
      by (auto split: sum.splits prod.splits)
    from step_past_steps [OF st] obtain new1 where
      n1: "past_steps state1 = past_steps state @ new1"
      "length new1 = (if n = Agent then 1 else 0)" by blast
    from Suc.IH [OF rest] obtain new2 where
      n2: "past_steps state' = past_steps state1 @ new2" "length new2 = count_list t1 Agent"
      by blast
    have "past_steps state' = past_steps state @ (new1 @ new2)"
      using n1 n2 by simp
    moreover have "length (new1 @ new2) = count_list t Agent"
      using n1 n2 t by simp
    ultimately show ?thesis by blast
  qed
qed

lemma steps_END_stable:
  "steps orc k i c = (t, Inr (END, state')) \<Longrightarrow> steps orc (k + m) i c = (t, Inr (END, state'))"
proof (induction k arbitrary: i c t)
  case 0
  then show ?case by (cases m) auto
next
  case (Suc k)
  obtain tgt state where c: "c = (tgt, state)" by (cases c)
  show ?case
  proof (cases tgt)
    case END
    with Suc.prems c show ?thesis by simp
  next
    case (Goto n)
    with Suc.prems c obtain c1 t1 where
      st: "step orc i n state = Inr c1"
      and rest: "steps orc k (Suc i) c1 = (t1, Inr (END, state'))"
      and t: "t = n # t1"
      by (auto split: sum.splits prod.splits)
    from Suc.IH [OF rest] have "steps orc (k + m) (Suc i) c1 = (t1, Inr (END, state'))" .
    with st t c Goto show ?thesis by simp
  qed
qed

lemma step_END:
  assumes "step orc i n state = Inr (END, state')"
  shows "n = Replan \<and> (\<exists>a. response state' = Some (PyStr a) \<and> a \<noteq> [])"
proof (cases "node_op orc i n state")
  case (Inl e)
  with assms show ?thesis by (simp add: step_def)
next
  case (Inr u)
  with assms have e: "edge n state' = END"
    by (auto simp: step_def Let_def)
  then have n: "n = Replan" by (cases n) auto
  with e have "should_end state' = END" by simp
  then have "\<exists>a. response state' = Some (PyStr a) \<and> a \<noteq> []"
    by (cases "response state'"; cases "the (response state')")
       (auto simp: should_end_def split: if_splits)
  with n show ?thesis by simp
qed

lemma steps_last_Replan:
  "steps orc k i (Goto n, state) = (t, Inr (END, state')) \<Longrightarrow> t \<noteq> [] \<and> last t = Replan"
proof (induction k arbitrary: i n state t)
  case 0
  then show ?case by simp
next
  case (Suc k)
  from Suc.prems obtain tgt1 state1 t1 where
    st: "step orc i n state = Inr (tgt1, state1)"
    and rest: "steps orc k (Suc i) (tgt1, state1) = (t1, Inr (END, state'))"
    and t: "t = n # t1"
    by (auto split: sum.splits prod.splits)
  show ?case
  proof (cases tgt1)
    case END
    with rest have "t1 = []" by (cases k) auto
    moreover from st END have "n = Replan" using step_END by blast
    ultimately show ?thesis using t by simp
  next
    case (Goto n1)
    with Suc.IH rest have "t1 \<noteq> [] \<and> last t1 = Replan" by blast
    with t show ?thesis by simp
  qed
qed

lemma steps_END_response:
  "steps orc k i (Goto n, state) = (t, Inr (END, state')) \<Longrightarrow>
     \<exists>a. response state' = Some (PyStr a) \<and> a \<noteq> []"
proof (induction k arbitrary: i n state t)
  case 0
  then show ?case by simp
next
  case (Suc k)
  from Suc.prems obtain tgt1 state1 t1 where
    st: "step orc i n state = Inr (tgt1, state1)"
    and rest: "steps orc k (Suc i) (tgt1, state1) = (t1, Inr (END, state'))"
    by (auto split: sum.splits prod.splits)
  show ?case
  proof (cases tgt1)
    case END
    with rest have "state' = state1" by (cases k) auto
    with st END show ?thesis using step_END by blast
  next
    case (Goto n1)
    with Suc.IH rest show ?thesis by blast
  qed
qed

lemma run_Inr_response:
  assumes "run orc limit state = Inr state'"
  shows "\<exists>a. response state' = Some (PyStr a) \<and> a \<noteq> []"
proof -
  obtain t r where s: "steps orc limit 0 (Goto Planner, state) = (t, r)"
    by (cases "steps orc limit 0 (Goto Planner, state)")
  with assms have "r = Inr (END, state')"
    by (auto simp: run_def entry_point_def split: sum.splits target.splits prod.splits)
  with s steps_END_response show ?thesis by blast
qed

lemma step_Replan_Response:
  "replanner_invoke orc i state = Some (Response r) \<Longrightarrow>
     step orc i Replan state
       = Inr (if r \<noteq> [] then END else Goto Agent, state\<lparr>response := Some (PyStr r)\<rparr>)"
  by (simp add: step_def replan_step_def apply_update_def should_end_def Let_def)

lemma scripted_run:
  "steps scripted 5 0 (entry_point, fresh_state ''q'' Map.empty)
     = ([Planner, Agent, Replan, Agent, Replan],
        Inr (END, \<lparr>input = ''q'', plan = [''summarize items''],
                   past_steps = [(''fetch items'', ''ok''), (''summarize items'', ''ok'')],
                   response = Some (PyStr ''summary''),
                   shared_data = [''src.call1'' \<mapsto> VList []]\<rparr>))"
  by (simp add: eval_nat_numeral entry_point_def fresh_state_def scripted_def step_def Let_def
        plan_step_def execute_step_def replan_step_def format_task_def last_content_def
        last_shared_data_def customs_def apply_update_def operator_add_def operator_or_map_add
        should_end_def)

lemma scripted_replan_concludes:
  "replanner_invoke scripted 4 st = Some (Response ''summary'')"
  by (simp add: scripted_def)

text \<open>
  C1. Terminality is absorbing. A state whose \<open>response\<close> is a non-empty string makes
  \<open>should_end\<close> return END; a Replan step that sets such a response moves to END, where no
  further operation is invoked however many more transitions are allowed; a step reaches
  END only from the replan node; and a run that has reached END is unchanged by a larger
  recursion limit and has a Replan as its last operation.
\<close>

theorem terminality_absorbing:
  "(response state = Some (PyStr r) \<and> r \<noteq> [] \<longrightarrow> should_end state = END)
   \<and> (replanner_invoke orc i state = Some (Response r) \<and> r \<noteq> [] \<longrightarrow>
        step orc i Replan state = Inr (END, state\<lparr>response := Some (PyStr r)\<rparr>)
        \<and> steps orc k j (END, state\<lparr>response := Some (PyStr r)\<rparr>)
            = ([], Inr (END, state\<lparr>response := Some (PyStr r)\<rparr>)))
   \<and> (step orc i n state = Inr (END, state') \<longrightarrow>
        n = Replan \<and> (\<exists>a. response state' = Some (PyStr a) \<and> a \<noteq> []))
   \<and> (steps orc k i (Goto n, state) = (t, Inr (END, state')) \<longrightarrow>
        t \<noteq> [] \<and> last t = Replan
        \<and> steps orc (k + m) i (Goto n, state) = (t, Inr (END, state')))"
proof (intro conjI impI)
  assume "response state = Some (PyStr r) \<and> r \<noteq> []"
  then show "should_end state = END" by (simp add: should_end_def)
next
  assume a: "replanner_invoke orc i state = Some (Response r) \<and> r \<noteq> []"
  then show "step orc i Replan state = Inr (END, state\<lparr>response := Some (PyStr r)\<rparr>)"
    by (simp add: step_Replan_Response)
  show "steps orc k j (END, state\<lparr>response := Some (PyStr r)\<rparr>)
          = ([], Inr (END, state\<lparr>response := Some (PyStr r)\<rparr>))"
    by (cases k) simp_all
next
  assume a: "step orc i n state = Inr (END, state')"
  from step_END [OF a] show "n = Replan" by simp
  from step_END [OF a] show "\<exists>a. response state' = Some (PyStr a) \<and> a \<noteq> []" by simp
next
  assume a: "steps orc k i (Goto n, state) = (t, Inr (END, state'))"
  from steps_last_Replan [OF a] show "t \<noteq> []" by simp
  from steps_last_Replan [OF a] show "last t = Replan" by simp
  from steps_END_stable [OF a] show "steps orc (k + m) i (Goto n, state) = (t, Inr (END, state'))" .
qed

theorem terminality_absorbing_witness:
  "should_end (fresh_state ''q'' Map.empty\<lparr>response := Some (PyStr ''summary'')\<rparr>) = END
   \<and> step scripted 4 Replan (fresh_state ''q'' Map.empty)
       = Inr (END, fresh_state ''q'' Map.empty\<lparr>response := Some (PyStr ''summary'')\<rparr>)
   \<and> steps scripted 5 0 (Goto Planner, fresh_state ''q'' Map.empty)
       = ([Planner, Agent, Replan, Agent, Replan],
          Inr (END, \<lparr>input = ''q'', plan = [''summarize items''],
                     past_steps = [(''fetch items'', ''ok''), (''summarize items'', ''ok'')],
                     response = Some (PyStr ''summary''),
                     shared_data = [''src.call1'' \<mapsto> VList []]\<rparr>))
   \<and> steps scripted (5 + 45) 0 (Goto Planner, fresh_state ''q'' Map.empty)
       = ([Planner, Agent, Replan, Agent, Replan],
          Inr (END, \<lparr>input = ''q'', plan = [''summarize items''],
                     past_steps = [(''fetch items'', ''ok''), (''summarize items'', ''ok'')],
                     response = Some (PyStr ''summary''),
                     shared_data = [''src.call1'' \<mapsto> VList []]\<rparr>))"
proof -
  let ?s0 = "fresh_state ''q'' Map.empty"
  let ?fin = "\<lparr>input = ''q'', plan = [''summarize items''],
                past_steps = [(''fetch items'', ''ok''), (''summarize items'', ''ok'')],
                response = Some (PyStr ''summary''),
                shared_data = [''src.call1'' \<mapsto> VList []]\<rparr>"
  have r: "replanner_invoke scripted 4 ?s0 = Some (Response ''summary'') \<and> ''summary'' \<noteq> []"
    by (simp add: scripted_def)
  have run5: "steps scripted 5 0 (Goto Planner, ?s0) = ([Planner, Agent, Replan, Agent, Replan], Inr (END, ?fin))"
    using scripted_run by (simp add: entry_point_def)
  have "should_end (?s0\<lparr>response := Some (PyStr ''summary'')\<rparr>) = END"
    using terminality_absorbing [where state = "?s0\<lparr>response := Some (PyStr ''summary'')\<rparr>"
        and r = "''summary''"]
    by (simp add: fresh_state_def)
  moreover have "step scripted 4 Replan ?s0 = Inr (END, ?s0\<lparr>response := Some (PyStr ''summary'')\<rparr>)"
    using r terminality_absorbing [where state = ?s0 and r = "''summary''" and orc = scripted and i = 4]
    by blast
  moreover have "steps scripted (5 + 45) 0 (Goto Planner, ?s0)
                   = ([Planner, Agent, Replan, Agent, Replan], Inr (END, ?fin))"
    using run5 terminality_absorbing [where orc = scripted and i = 0 and k = 5 and n = Planner
        and state = ?s0 and state' = ?fin and t = "[Planner, Agent, Replan, Agent, Replan]"
        and m = 45]
    by blast
  ultimately show ?thesis using run5 by blast
qed

text \<open>
  C4. Execute reads the first step of the plan and leaves \<open>plan\<close> alone: its update has
  only the keys \<open>past_steps\<close> and \<open>shared_data\<close>, the recorded step is the head of the plan,
  the plan after the agent node is the plan before it, and a transition that changes the
  plan is a Plan or a Replan.
\<close>

theorem execute_step_leaves_plan:
  "(execute_step orc i state = Inr (events, u) \<longrightarrow>
      plan state \<noteq> [] \<and> u_plan u = None \<and> u_response u = None
      \<and> (\<exists>content. u_past_steps u = Some [(hd (plan state), content)])
      \<and> u_shared_data u \<noteq> None
      \<and> plan (apply_update state u) = plan state)
   \<and> (step orc i Agent state = Inr (tgt, state') \<longrightarrow> plan state' = plan state)
   \<and> (step orc i n state = Inr (tgt, state') \<and> plan state' \<noteq> plan state \<longrightarrow>
        n = Planner \<or> n = Replan)"
proof -
  have a: "plan state \<noteq> [] \<and> u_plan u = None \<and> u_response u = None
      \<and> (\<exists>content. u_past_steps u = Some [(hd (plan state), content)])
      \<and> u_shared_data u \<noteq> None
      \<and> plan (apply_update state u) = plan state"
    if "execute_step orc i state = Inr (events, u)" for events u
    using execute_step_Inr [OF that] by (auto simp: apply_update_def)
  have b: "plan state' = plan state" if "step orc i Agent state = Inr (tgt, state')"
    using that a by (auto simp: step_def Let_def split: sum.splits prod.splits)
  have c: "n = Planner \<or> n = Replan"
    if "step orc i n state = Inr (tgt, state') \<and> plan state' \<noteq> plan state"
    using that b by (cases n) auto
  from a b c show ?thesis by blast
qed

theorem execute_step_leaves_plan_witness:
  "execute_step scripted 1 (fresh_state ''q'' Map.empty\<lparr>plan := [''fetch items'', ''summarize items'']\<rparr>)
     = Inr ([CustomData ''retrieved 3 items''],
            \<lparr>u_plan = None, u_past_steps = Some [(''fetch items'', ''ok'')],
             u_response = None, u_shared_data = Some [''src.call1'' \<mapsto> VList []]\<rparr>)
   \<and> plan (apply_update (fresh_state ''q'' Map.empty\<lparr>plan := [''fetch items'', ''summarize items'']\<rparr>)
             \<lparr>u_plan = None, u_past_steps = Some [(''fetch items'', ''ok'')],
              u_response = None, u_shared_data = Some [''src.call1'' \<mapsto> VList []]\<rparr>)
     = [''fetch items'', ''summarize items'']"
proof -
  let ?s = "fresh_state ''q'' Map.empty\<lparr>plan := [''fetch items'', ''summarize items'']\<rparr>"
  let ?u = "\<lparr>u_plan = None, u_past_steps = Some [(''fetch items'', ''ok'')],
             u_response = None, u_shared_data = Some [''src.call1'' \<mapsto> VList []]\<rparr>"
  have h: "execute_step scripted 1 ?s = Inr ([CustomData ''retrieved 3 items''], ?u)"
    by (simp add: execute_step_def format_task_def scripted_def fresh_state_def
          last_content_def last_shared_data_def customs_def)
  from h execute_step_leaves_plan [where orc = scripted and i = 1 and state = ?s
      and events = "[CustomData ''retrieved 3 items'']" and u = ?u]
  have "plan (apply_update ?s ?u) = plan ?s" by blast
  with h show ?thesis by (simp add: fresh_state_def)
qed

text \<open>
  C5. History is append-only and counts the completed execute steps. An Execute that
  returns appends exactly one pair (the step taken, the result text) to \<open>past_steps\<close>;
  after any number of transitions from any configuration, \<open>past_steps\<close> is the earlier
  \<open>past_steps\<close> followed by as many new entries as agent operations completed; from an
  empty history, as in the fresh state the router builds, its length is that number.
\<close>

theorem past_steps_append_only:
  "(execute_step orc i state = Inr (events, u) \<longrightarrow>
      (\<exists>content. past_steps (apply_update state u)
                    = past_steps state @ [(hd (plan state), content)]))
   \<and> (steps orc k i (tgt, state) = (t, Inr (tgt', state')) \<longrightarrow>
        (\<exists>new. past_steps state' = past_steps state @ new \<and> length new = count_list t Agent)
        \<and> (past_steps state = [] \<longrightarrow> length (past_steps state') = count_list t Agent))"
proof (intro conjI impI)
  assume "execute_step orc i state = Inr (events, u)"
  from execute_step_Inr [OF this]
  show "\<exists>content. past_steps (apply_update state u)
                    = past_steps state @ [(hd (plan state), content)]"
    by (auto simp: apply_update_def operator_add_def)
next
  assume a: "steps orc k i (tgt, state) = (t, Inr (tgt', state'))"
  from steps_past_steps [OF a]
  show "\<exists>new. past_steps state' = past_steps state @ new \<and> length new = count_list t Agent" .
  assume "past_steps state = []"
  with steps_past_steps [OF a]
  show "length (past_steps state') = count_list t Agent" by auto
qed

theorem past_steps_append_only_witness:
  "steps scripted 5 0 (Goto Planner, fresh_state ''q'' Map.empty)
     = ([Planner, Agent, Replan, Agent, Replan],
        Inr (END, \<lparr>input = ''q'', plan = [''summarize items''],
                   past_steps = [(''fetch items'', ''ok''), (''summarize items'', ''ok'')],
                   response = Some (PyStr ''summary''),
                   shared_data = [''src.call1'' \<mapsto> VList []]\<rparr>))
   \<and> past_steps (fresh_state ''q'' Map.empty) = []
   \<and> length [(''fetch items'', ''ok''), (''summarize items'', ''ok'')]
       = count_list [Planner, Agent, Replan, Agent, Replan] Agent"
proof -
  let ?s0 = "fresh_state ''q'' Map.empty"
  let ?fin = "\<lparr>input = ''q'', plan = [''summarize items''],
                past_steps = [(''fetch items'', ''ok''), (''summarize items'', ''ok'')],
                response = Some (PyStr ''summary''),
                shared_data = [''src.call1'' \<mapsto> VList []]\<rparr>"
  have run5: "steps scripted 5 0 (Goto Planner, ?s0) = ([Planner, Agent, Replan, Agent, Replan], Inr (END, ?fin))"
    using scripted_run by (simp add: entry_point_def)
  have e: "past_steps ?s0 = []" by (simp add: fresh_state_def)
  from run5 e past_steps_append_only [where orc = scripted and k = 5 and i = 0
      and tgt = "Goto Planner" and state = ?s0 and t = "[Planner, Agent, Replan, Agent, Replan]"
      and tgt' = END and state' = ?fin]
  have "length (past_steps ?fin) = count_list [Planner, Agent, Replan, Agent, Replan] Agent"
    by blast
  with run5 e show ?thesis by simp
qed

text \<open>
  C6. When the planner returns a step list, \<open>plan_step\<close> returns the update that sets
  \<open>plan\<close> to that list and \<open>response\<close> to None, so the planner node replaces the plan
  wholesale and clears the response in one transition, whatever they were.
\<close>

theorem plan_step_replaces_plan:
  assumes "planner_invoke orc i (input state) = Some stps"
  shows "plan_step orc i state
           = Inr \<lparr>u_plan = Some stps, u_past_steps = None,
                  u_response = Some PyNone, u_shared_data = None\<rparr>
       \<and> step orc i Planner state
           = Inr (Goto Agent, state\<lparr>plan := stps, response := Some PyNone\<rparr>)"
  using assms by (simp add: plan_step_def step_def apply_update_def Let_def)

theorem plan_step_replaces_plan_witness:
  "planner_invoke scripted 0 (input (fresh_state ''q'' Map.empty\<lparr>plan := [''old'']\<rparr>))
     = Some [''fetch items'', ''summarize items'']
   \<and> step scripted 0 Planner (fresh_state ''q'' Map.empty\<lparr>plan := [''old'']\<rparr>)
       = Inr (Goto Agent,
              \<lparr>input = ''q'', plan = [''fetch items'', ''summarize items''], past_steps = [],
               response = Some PyNone, shared_data = Map.empty\<rparr>)"
proof -
  let ?s = "fresh_state ''q'' Map.empty\<lparr>plan := [''old'']\<rparr>"
  have h: "planner_invoke scripted 0 (input ?s) = Some [''fetch items'', ''summarize items'']"
    by (simp add: scripted_def)
  from plan_step_replaces_plan [OF h] h show ?thesis
    by (simp add: fresh_state_def)
qed

text \<open>
  C7. With a non-empty plan, the accesses of \<open>execute_step\<close> to the plan are in bounds:
  formatting the task returns the first step and the instruction built from the whole
  plan, \<open>execute_step\<close> does not raise the IndexError of \<open>plan[0]\<close>, and when the sub-agent
  returns a final state with a message and \<open>shared_data\<close>, \<open>execute_step\<close> returns its update.
\<close>

theorem execute_step_plan_access_in_bounds:
  assumes "plan state \<noteq> []"
  shows "format_task (plan state)
           = Inr (hd (plan state), task_formatted (plan_str (plan state)) (hd (plan state)))
       \<and> execute_step orc i state \<noteq> Inl (IndexError ''plan[0]'')
       \<and> (agent_executor_invoke orc i
             (task_formatted (plan_str (plan state)) (hd (plan state))) (shared_data state)
             = Some resp
           \<and> last_content resp = Inr content \<and> last_shared_data resp = Inr sd \<longrightarrow>
           execute_step orc i state
             = Inr (customs resp,
                    \<lparr>u_plan = None, u_past_steps = Some [(hd (plan state), content)],
                     u_response = None, u_shared_data = Some sd\<rparr>))"
proof -
  from assms obtain task rest where pl: "plan state = task # rest"
    by (cases "plan state") auto
  then have f: "format_task (plan state)
           = Inr (hd (plan state), task_formatted (plan_str (plan state)) (hd (plan state)))"
    by (simp add: format_task_def)
  have ne: "execute_step orc i state \<noteq> Inl (IndexError ''plan[0]'')"
    by (auto simp: execute_step_def f last_content_def last_shared_data_def
             split: option.splits sum.splits payload.splits if_splits)
  have ok: "execute_step orc i state
             = Inr (customs resp,
                    \<lparr>u_plan = None, u_past_steps = Some [(hd (plan state), content)],
                     u_response = None, u_shared_data = Some sd\<rparr>)"
    if "agent_executor_invoke orc i
             (task_formatted (plan_str (plan state)) (hd (plan state))) (shared_data state)
             = Some resp
           \<and> last_content resp = Inr content \<and> last_shared_data resp = Inr sd"
    using that by (simp add: execute_step_def f)
  from f ne ok show ?thesis by blast
qed

theorem execute_step_plan_access_in_bounds_witness:
  "plan (fresh_state ''q'' Map.empty\<lparr>plan := [''fetch items'', ''summarize items'']\<rparr>) \<noteq> []
   \<and> format_task [''fetch items'', ''summarize items'']
       = Inr (''fetch items'',
              task_formatted (plan_str [''fetch items'', ''summarize items'']) ''fetch items'')
   \<and> execute_step scripted 1 (fresh_state ''q'' Map.empty\<lparr>plan := [''fetch items'', ''summarize items'']\<rparr>)
       \<noteq> Inl (IndexError ''plan[0]'')"
proof -
  let ?s = "fresh_state ''q'' Map.empty\<lparr>plan := [''fetch items'', ''summarize items'']\<rparr>"
  have h: "plan ?s \<noteq> []" by (simp add: fresh_state_def)
  from execute_step_plan_access_in_bounds [OF h, of scripted 1] h show ?thesis
    by (simp add: fresh_state_def)
qed

text \<open>
  C10. A final answer that is the empty string does not end the run. \<open>should_end\<close> sends
  a state whose \<open>response\<close> is absent, None or the empty string back to the agent node; it
  returns END exactly when \<open>response\<close> is a non-empty string; a Replan that answers with
  the empty string stores it and moves to the agent node; after the planner node
  \<open>response\<close> is None, for which \<open>should_end\<close> does not end the run; and a run that
  returns a state returns one whose \<open>response\<close> is a non-empty string.
\<close>

theorem empty_response_does_not_terminate:
  "(response state = None \<or> response state = Some PyNone \<or> response state = Some (PyStr [])
      \<longrightarrow> should_end state = Goto Agent)
   \<and> (should_end state = END \<longleftrightarrow> (\<exists>r. response state = Some (PyStr r) \<and> r \<noteq> []))
   \<and> (replanner_invoke orc i state = Some (Response []) \<longrightarrow>
        step orc i Replan state = Inr (Goto Agent, state\<lparr>response := Some (PyStr [])\<rparr>)
        \<and> steps orc (Suc 0) i (Goto Replan, state)
            = ([Replan], Inr (Goto Agent, state\<lparr>response := Some (PyStr [])\<rparr>)))
   \<and> (plan_step orc i state = Inr u \<longrightarrow> should_end (apply_update state u) = Goto Agent)
   \<and> (run orc limit state = Inr state' \<longrightarrow> (\<exists>r. response state' = Some (PyStr r) \<and> r \<noteq> []))"
proof (intro conjI impI)
  assume "run orc limit state = Inr state'"
  from run_Inr_response [OF this]
  show "\<exists>r. response state' = Some (PyStr r) \<and> r \<noteq> []" .
next
  assume "response state = None \<or> response state = Some PyNone \<or> response state = Some (PyStr [])"
  then show "should_end state = Goto Agent"
    by (auto simp: should_end_def)
next
  show "should_end state = END \<longleftrightarrow> (\<exists>r. response state = Some (PyStr r) \<and> r \<noteq> [])"
    by (cases "response state"; cases "the (response state)")
       (auto simp: should_end_def)
next
  assume a: "replanner_invoke orc i state = Some (Response [])"
  from step_Replan_Response [OF a]
  show s: "step orc i Replan state = Inr (Goto Agent, state\<lparr>response := Some (PyStr [])\<rparr>)"
    by simp
  then show "steps orc (Suc 0) i (Goto Replan, state)
            = ([Replan], Inr (Goto Agent, state\<lparr>response := Some (PyStr [])\<rparr>))"
    by simp
next
  assume "plan_step orc i state = Inr u"
  from plan_step_Inr [OF this]
  show "should_end (apply_update state u) = Goto Agent"
    by (auto simp: should_end_def apply_update_def)
qed

text \<open>An oracle whose replanner concludes with the empty string.\<close>

theorem empty_response_does_not_terminate_witness:
  "replanner_invoke (scripted\<lparr>replanner_invoke := (\<lambda>i st. Some (Response []))\<rparr>) 2
       (fresh_state ''q'' Map.empty) = Some (Response [])
   \<and> step (scripted\<lparr>replanner_invoke := (\<lambda>i st. Some (Response []))\<rparr>) 2 Replan
       (fresh_state ''q'' Map.empty)
       = Inr (Goto Agent, fresh_state ''q'' Map.empty)
   \<and> should_end (fresh_state ''q'' Map.empty) = Goto Agent"
proof -
  let ?orc = "scripted\<lparr>replanner_invoke := (\<lambda>i st. Some (Response []))\<rparr>"
  let ?s = "fresh_state ''q'' Map.empty"
  have h: "replanner_invoke ?orc 2 ?s = Some (Response [])" by simp
  have r: "response ?s = Some (PyStr [])" by (simp add: fresh_state_def)
  from h empty_response_does_not_terminate [where orc = ?orc and i = 2 and state = ?s]
  have "step ?orc 2 Replan ?s = Inr (Goto Agent, ?s\<lparr>response := Some (PyStr [])\<rparr>)"
    by blast
  moreover from r empty_response_does_not_terminate [where state = ?s]
  have "should_end ?s = Goto Agent" by blast
  ultimately show ?thesis using h by (simp add: fresh_state_def)
qed

section \<open>Namespaced keys of the data-fetching tools\<close>

lemma invoke_tool_dom:
  "dom (c_shared_data (invoke_tool c tool_call_id)) = {key_prefix c @ tool_call_id}"
  by (cases c)
     (simp_all add: jql_query_def get_github_commits_def get_github_pull_requests_def
        get_github_commit_details_def get_github_pr_details_def Let_def)

lemma key_prefix_inj:
  "key_prefix c1 @ id1 = key_prefix c2 @ id2 \<Longrightarrow> key_prefix c1 = key_prefix c2 \<and> id1 = id2"
  by (cases c1; cases c2) simp_all

text \<open>
  C9. The patch of every data-fetching tool writes exactly one \<open>shared_data\<close> key, the
  tool's namespace followed by the tool-call id. Two invocations with distinct tool-call
  ids write disjoint key sets, and after merging both patches in either order each key
  holds the value its own invocation wrote.
\<close>

theorem tool_patch_keys_namespaced:
  "dom (c_shared_data (invoke_tool c1 id1)) = {key_prefix c1 @ id1}
   \<and> (id1 \<noteq> id2 \<longrightarrow>
        dom (c_shared_data (invoke_tool c1 id1)) \<inter> dom (c_shared_data (invoke_tool c2 id2)) = {}
        \<and> operator_or (operator_or S (c_shared_data (invoke_tool c1 id1)))
                       (c_shared_data (invoke_tool c2 id2)) (key_prefix c1 @ id1)
            = c_shared_data (invoke_tool c1 id1) (key_prefix c1 @ id1)
        \<and> operator_or (operator_or S (c_shared_data (invoke_tool c2 id2)))
                       (c_shared_data (invoke_tool c1 id1)) (key_prefix c2 @ id2)
            = c_shared_data (invoke_tool c2 id2) (key_prefix c2 @ id2))"
proof (intro conjI impI)
  show "dom (c_shared_data (invoke_tool c1 id1)) = {key_prefix c1 @ id1}"
    by (rule invoke_tool_dom)
next
  assume ne: "id1 \<noteq> id2"
  then have k: "key_prefix c1 @ id1 \<noteq> key_prefix c2 @ id2"
    using key_prefix_inj by blast
  then show "dom (c_shared_data (invoke_tool c1 id1)) \<inter> dom (c_shared_data (invoke_tool c2 id2)) = {}"
    by (simp add: invoke_tool_dom)
  have n2: "c_shared_data (invoke_tool c2 id2) (key_prefix c1 @ id1) = None"
    using k invoke_tool_dom [of c2 id2] by (metis domIff singletonD)
  have n1: "c_shared_data (invoke_tool c1 id1) (key_prefix c2 @ id2) = None"
    using k invoke_tool_dom [of c1 id1] by (metis domIff singletonD)
  have s1: "c_shared_data (invoke_tool c1 id1) (key_prefix c1 @ id1) \<noteq> None"
    using invoke_tool_dom [of c1 id1] by (metis domIff singletonI)
  have s2: "c_shared_data (invoke_tool c2 id2) (key_prefix c2 @ id2) \<noteq> None"
    using invoke_tool_dom [of c2 id2] by (metis domIff singletonI)
  show "operator_or (operator_or S (c_shared_data (invoke_tool c1 id1)))
                       (c_shared_data (invoke_tool c2 id2)) (key_prefix c1 @ id1)
            = c_shared_data (invoke_tool c1 id1) (key_prefix c1 @ id1)"
    using n2 s1 by (auto simp: operator_or_def split: option.splits)
  show "operator_or (operator_or S (c_shared_data (invoke_tool c2 id2)))
                       (c_shared_data (invoke_tool c1 id1)) (key_prefix c2 @ id2)
            = c_shared_data (invoke_tool c2 id2) (key_prefix c2 @ id2)"
    using n1 s2 by (auto simp: operator_or_def split: option.splits)
qed

theorem tool_patch_keys_namespaced_witness:
  "''call_1'' \<noteq> ''call_2''
   \<and> dom (c_shared_data (invoke_tool (JqlQuery (VList [])) ''call_1'')) = {''jira.jql.call_1''}
   \<and> dom (c_shared_data (invoke_tool (JqlQuery (VList [])) ''call_1''))
       \<inter> dom (c_shared_data (invoke_tool (GetGithubCommits [] ''owner/repo'') ''call_2'')) = {}
   \<and> operator_or (operator_or Map.empty (c_shared_data (invoke_tool (JqlQuery (VList [])) ''call_1'')))
         (c_shared_data (invoke_tool (GetGithubCommits [] ''owner/repo'') ''call_2''))
         ''jira.jql.call_1'' = Some (VList [])"
proof -
  have h: "''call_1'' \<noteq> ''call_2''" by simp
  from h tool_patch_keys_namespaced [of "JqlQuery (VList [])" "''call_1''" "''call_2''"
      "GetGithubCommits [] ''owner/repo''" Map.empty]
  show ?thesis
    by (simp add: jql_query_def get_github_commits_def Let_def)
qed

section \<open>The router's classification\<close>

lemma operator_or_idem: "operator_or a a = a"
  by (rule ext) (simp add: operator_or_def split: option.splits)

lemma route_valid:
  assumes "llm (r_input state) = Some raw"
    and "agent raw = ''github'' \<or> agent raw = ''jira''"
    and "0 \<le> confidence raw" and "confidence raw \<le> 1"
  shows "route llm state
           = Inr (if agent raw = ''github'' then execute_github else execute_jira,
                  state\<lparr>route_decision := Some raw\<rparr>)"
  using assms
  by (auto simp: route_def route_query_def router_invoke_def validate_route_decision_def
        decide_route_def path_map_def operator_or_idem)

lemma route_invalid:
  assumes "llm (r_input state) = Some raw"
    and "\<not> ((agent raw = ''github'' \<or> agent raw = ''jira'')
             \<and> 0 \<le> confidence raw \<and> confidence raw \<le> 1)"
  shows "route llm state = Inl ValidationError"
  using assms
  by (auto simp: route_def route_query_def router_invoke_def validate_route_decision_def)

lemma route_Inr:
  assumes "route llm state = Inr (n, state')"
  shows "\<exists>d. llm (r_input state) = Some d \<and> route_decision state' = Some d
           \<and> (agent d = ''github'' \<or> agent d = ''jira'')
           \<and> 0 \<le> confidence d \<and> confidence d \<le> 1
           \<and> decide_route state' = Inr (agent d)
           \<and> (n = execute_github \<longleftrightarrow> agent d = ''github'')
           \<and> (n = execute_jira \<longleftrightarrow> agent d = ''jira'')"
proof (cases "llm (r_input state)")
  case None
  with assms show ?thesis
    by (simp add: route_def route_query_def router_invoke_def)
next
  case (Some raw)
  show ?thesis
  proof (cases "(agent raw = ''github'' \<or> agent raw = ''jira'')
             \<and> 0 \<le> confidence raw \<and> confidence raw \<le> 1")
    case False
    from route_invalid [of llm state raw] Some False assms show ?thesis by simp
  next
    case True
    then have r: "route llm state
           = Inr (if agent raw = ''github'' then execute_github else execute_jira,
                  state\<lparr>route_decision := Some raw\<rparr>)"
      using route_valid [of llm state raw] Some by blast
    with assms have n: "n = (if agent raw = ''github'' then execute_github else execute_jira)"
      and s: "state' = state\<lparr>route_decision := Some raw\<rparr>" by simp_all
    from True n s Some show ?thesis
      by (auto simp: decide_route_def)
  qed
qed

text \<open>
  C8. A classification that the schema accepts names exactly one of the two targets,
  \<open>github\<close> or \<open>jira\<close>, with a confidence between 0 and 1, and the conditional edge
  dispatches to the engine of that name; a classification whose target is outside the
  enumeration or whose confidence is outside the bounds is a validation error; and
  whenever routing succeeds, the stored decision has one of the two targets, a confidence
  within the bounds, and the node chosen is the one it names.
\<close>

theorem route_decision_one_of_two:
  "(llm (r_input state) = Some raw
      \<and> (agent raw = ''github'' \<or> agent raw = ''jira'')
      \<and> 0 \<le> confidence raw \<and> confidence raw \<le> 1 \<longrightarrow>
      route llm state
        = Inr (if agent raw = ''github'' then execute_github else execute_jira,
               state\<lparr>route_decision := Some raw\<rparr>))
   \<and> (llm (r_input state) = Some raw
      \<and> \<not> ((agent raw = ''github'' \<or> agent raw = ''jira'')
             \<and> 0 \<le> confidence raw \<and> confidence raw \<le> 1) \<longrightarrow>
      route llm state = Inl ValidationError)
   \<and> (route llm state = Inr (n, state') \<longrightarrow>
        (\<exists>d. route_decision state' = Some d
           \<and> (agent d = ''github'' \<or> agent d = ''jira'')
           \<and> 0 \<le> confidence d \<and> confidence d \<le> 1
           \<and> decide_route state' = Inr (agent d)
           \<and> (n = execute_github \<longleftrightarrow> agent d = ''github'')
           \<and> (n = execute_jira \<longleftrightarrow> agent d = ''jira'')))"
proof (intro conjI impI)
  assume "llm (r_input state) = Some raw
      \<and> (agent raw = ''github'' \<or> agent raw = ''jira'')
      \<and> 0 \<le> confidence raw \<and> confidence raw \<le> 1"
  then show "route llm state
        = Inr (if agent raw = ''github'' then execute_github else execute_jira,
               state\<lparr>route_decision := Some raw\<rparr>)"
    using route_valid by blast
next
  assume "llm (r_input state) = Some raw
      \<and> \<not> ((agent raw = ''github'' \<or> agent raw = ''jira'')
             \<and> 0 \<le> confidence raw \<and> confidence raw \<le> 1)"
  then show "route llm state = Inl ValidationError"
    using route_invalid by blast
next
  assume "route llm state = Inr (n, state')"
  from route_Inr [OF this]
  show "\<exists>d. route_decision state' = Some d
           \<and> (agent d = ''github'' \<or> agent d = ''jira'')
           \<and> 0 \<le> confidence d \<and> confidence d \<le> 1
           \<and> decide_route state' = Inr (agent d)
           \<and> (n = execute_github \<longleftrightarrow> agent d = ''github'')
           \<and> (n = execute_jira \<longleftrightarrow> agent d = ''jira'')"
    by blast
qed

theorem route_decision_one_of_two_witness:
  "route (\<lambda>q. Some \<lparr>agent = ''jira'', confidence = 1 / 2, reasoning = ''neither marker''\<rparr>)
         (initial_state ''hello'')
     = Inr (execute_jira,
            initial_state ''hello''
              \<lparr>route_decision := Some \<lparr>agent = ''jira'', confidence = 1 / 2,
                                        reasoning = ''neither marker''\<rparr>\<rparr>)
   \<and> route (\<lambda>q. Some \<lparr>agent = ''gitlab'', confidence = 1 / 2, reasoning = ''other''\<rparr>)
           (initial_state ''hello'') = Inl ValidationError
   \<and> route (\<lambda>q. Some \<lparr>agent = ''github'', confidence = 3 / 2, reasoning = ''sure''\<rparr>)
           (initial_state ''hello'') = Inl ValidationError"
proof -
  let ?s = "initial_state ''hello''"
  let ?a = "\<lparr>agent = ''jira'', confidence = 1 / 2, reasoning = ''neither marker''\<rparr>"
  let ?b = "\<lparr>agent = ''gitlab'', confidence = 1 / 2, reasoning = ''other''\<rparr>"
  let ?c = "\<lparr>agent = ''github'', confidence = 3 / 2, reasoning = ''sure''\<rparr>"
  have "route (\<lambda>q. Some ?a) ?s = Inr (execute_jira, ?s\<lparr>route_decision := Some ?a\<rparr>)"
    using route_decision_one_of_two [where llm = "\<lambda>q. Some ?a" and state = ?s and raw = ?a]
    by simp
  moreover have "route (\<lambda>q. Some ?b) ?s = Inl ValidationError"
    using route_decision_one_of_two [where llm = "\<lambda>q. Some ?b" and state = ?s and raw = ?b]
    by simp
  moreover have "route (\<lambda>q. Some ?c) ?s = Inl ValidationError"
    using route_decision_one_of_two [where llm = "\<lambda>q. Some ?c" and state = ?s and raw = ?c]
    by simp
  ultimately show ?thesis by blast
qed

section \<open>Map-reduce on an empty item collection\<close>

lemma string_of_nat_0: "string_of_nat 0 = ''0''"
  by (simp add: string_of_nat.simps digit_char_def)

lemma analyze_empty_list:
  assumes "lookup_shared state memory_key = Some (VList [])"
  shows "analyze_content_tool ext dimensions memory_key state
           = Inr \<lparr>res_messages = [''Failure to analyze content''],
                  res_events = [''[bold green]SHARED DATA FOUND[/bold green]: Retrieved 0 from shared memory''],
                  oracle_calls = []\<rparr>"
  using assms by (simp add: analyze_content_tool_def string_of_nat_0)

lemma analyze_missing_key:
  assumes "lookup_shared state memory_key = None"
  shows "analyze_content_tool ext dimensions memory_key state
           = Inr \<lparr>res_messages = [''Failure to analyze content''], res_events = [],
                  oracle_calls = []\<rparr>"
  using assms by (simp add: analyze_content_tool_def)

lemma summarise_empty_list:
  assumes "k \<noteq> []" and "lookup_shared st k = Some (VList [])"
  shows "summarise_content_tool ext dimensions content (Some k) (Some st)
           = (case structured_invoke ext
                     (summary_prompt dimensions (py_str ext (VList [])) (format_instructions ext)) of
                None \<Rightarrow> Inl OracleError
              | Some ds \<Rightarrow>
                  Inr \<lparr>res_messages =
                         [json_dumps ext
                            (foldl (\<lambda>summary (name, text). set_dimension summary name text) [] ds)],
                       res_events =
                         [''[bold green]CONTENT FOUND[/bold green]: Retrieved '' @ k
                            @ '' from shared memory'',
                          ''[bold blue]TEXT SUMMARY[/bold blue]: Processing text content'',
                          ''[bold blue]TEXT SUMMARY COMPLETE[/bold blue]''],
                       oracle_calls =
                         [StructuredInvoke
                            (summary_prompt dimensions (py_str ext (VList []))
                               (format_instructions ext))]\<rparr>)"
  using assms
  by (simp add: summarise_content_tool_def summarise_content_def Let_def split: option.splits)

text \<open>
  C3, evaluated on the empty list stored under the key \<open>k\<close>. \<open>analyze_content_tool\<close>
  returns its failure message with no oracle invocation; \<open>summarise_content_tool\<close> takes
  its plain-text branch and makes one structured call of the language model, with the
  text of the empty list as the content to summarise.
\<close>

theorem summarise_empty_list_invokes_oracle:
  "analyze_content_tool stub_externals [''priority''] ''k''
       \<lparr>ts_shared_data = Some [''k'' \<mapsto> VList []]\<rparr>
     = Inr \<lparr>res_messages = [''Failure to analyze content''],
            res_events = [''[bold green]SHARED DATA FOUND[/bold green]: Retrieved 0 from shared memory''],
            oracle_calls = []\<rparr>
   \<and> summarise_content_tool stub_externals ''priority'' VNone (Some ''k'')
         (Some \<lparr>ts_shared_data = Some [''k'' \<mapsto> VList []]\<rparr>)
     = Inr \<lparr>res_messages = [''priority: nothing to summarise''],
            res_events = [''[bold green]CONTENT FOUND[/bold green]: Retrieved k from shared memory'',
                          ''[bold blue]TEXT SUMMARY[/bold blue]: Processing text content'',
                          ''[bold blue]TEXT SUMMARY COMPLETE[/bold blue]''],
            oracle_calls = [StructuredInvoke (summary_prompt ''priority'' ''[]'' ''fmt'')]\<rparr>"
proof -
  let ?st = "\<lparr>ts_shared_data = Some [''k'' \<mapsto> VList []]\<rparr>"
  have l: "lookup_shared ?st ''k'' = Some (VList [])"
    by (simp add: lookup_shared_def)
  have k: "''k'' \<noteq> []" by simp
  show ?thesis
    using analyze_empty_list [OF l, of stub_externals "[''priority'']"]
      summarise_empty_list [OF k l, of stub_externals "''priority''" VNone]
    by (simp add: stub_externals_def)
qed

end
